theory Spec2Isabelle
  imports Main
begin

section \<open>The debounced button of simple\_button.py\<close>

subsection \<open>Python values\<close>

text \<open>
  The constructor checks two of its arguments at run time (\<^verbatim>\<open>isinstance(debounce_ms, int)\<close>,
  \<^verbatim>\<open>pull is not None and pull not in (...)\<close>), so these arguments are Python objects of any
  type. \<open>PyStr\<close> stands for every object that is neither \<^verbatim>\<open>None\<close> nor an \<^verbatim>\<open>int\<close>
  (floats are not modelled). Python's \<^verbatim>\<open>bool\<close> is a subclass of \<^verbatim>\<open>int\<close>:
  \<^verbatim>\<open>isinstance(True, int)\<close> holds and \<^verbatim>\<open>True == 1\<close>.
\<close>

datatype pyval = PyNone | PyBool bool | PyInt int | PyStr string

datatype error = ValueError string | TypeError string

text \<open>The integer value of an instance of \<^verbatim>\<open>int\<close>; \<open>None\<close> for every other object.\<close>

fun py_int :: "pyval \<Rightarrow> int option" where
  "py_int (PyInt i) = Some i"
| "py_int (PyBool b) = Some (if b then 1 else 0)"
| "py_int PyNone = None"
| "py_int (PyStr s) = None"

text \<open>Python's \<^verbatim>\<open>==\<close>: numbers compare by value, other objects only with their own kind.\<close>

definition py_eq :: "pyval \<Rightarrow> pyval \<Rightarrow> bool" where
  "py_eq a b =
     (case (py_int a, py_int b) of
        (Some x, Some y) \<Rightarrow> x = y
      | (None, None) \<Rightarrow> a = b
      | _ \<Rightarrow> False)"

text \<open>Python's truth value of an object, as \<^verbatim>\<open>not x\<close> and \<^verbatim>\<open>if x:\<close> use it.\<close>

fun py_truthy :: "pyval \<Rightarrow> bool" where
  "py_truthy PyNone = False"
| "py_truthy (PyBool b) = b"
| "py_truthy (PyInt i) = (i \<noteq> 0)"
| "py_truthy (PyStr s) = (s \<noteq> [])"

definition py_not :: "pyval \<Rightarrow> pyval" where
  "py_not v = PyBool (\<not> py_truthy v)"

text \<open>\<^verbatim>\<open>n < v\<close> for an int \<open>n\<close>: a \<^verbatim>\<open>TypeError\<close> unless \<open>v\<close> is an instance of \<^verbatim>\<open>int\<close>.\<close>

definition py_int_lt :: "int \<Rightarrow> pyval \<Rightarrow> error + bool" where
  "py_int_lt n v =
     (case py_int v of
        None \<Rightarrow> Inl (TypeError ''unsupported types for __lt__'')
      | Some d \<Rightarrow> Inr (n < d))"

subsection \<open>The platform: pin and clock\<close>

text \<open>
  Modelled from the spec: the modules \<^verbatim>\<open>machine\<close> and \<^verbatim>\<open>utime\<close> that the source imports
  are not under src/. The spec describes a GPIO collaborator whose level read returns low or
  high and a clock with a wraparound-safe \<open>diff(a, b)\<close>, the elapsed time from \<open>b\<close> to
  \<open>a\<close>, computed modulo the counter width. The two pull constants and the period of the
  tick counter are parameters of the platform.
\<close>

record platform =
  PULL_UP :: int
  PULL_DOWN :: int
  TICKS_PERIOD :: int

datatype level = Low | High

text \<open>\<^verbatim>\<open>Pin.value()\<close> returns 0 for a low level and 1 for a high one.\<close>

fun pin_value :: "level \<Rightarrow> pyval" where
  "pin_value Low = PyInt 0"
| "pin_value High = PyInt 1"

definition ticks_diff :: "platform \<Rightarrow> int \<Rightarrow> int \<Rightarrow> int" where
  "ticks_diff pl a b =
     (a - b + TICKS_PERIOD pl div 2) mod TICKS_PERIOD pl - TICKS_PERIOD pl div 2"

text \<open>
  The \<^verbatim>\<open>Pin\<close> object: its number, its pull mode and whether an interrupt handler is
  registered on it.
\<close>

record machine_pin =
  pin_id :: int
  pin_pull :: pyval
  irq_handler_set :: bool

subsection \<open>The button\<close>

text \<open>
  The attributes of a \<^verbatim>\<open>SimpleButton\<close>. A callback is an opaque value of type \<open>'cb\<close>;
  calling it is recorded in the list of calls an operation returns.
\<close>

record 'cb button =
  pin :: machine_pin
  press_callback :: "'cb option"
  release_callback :: "'cb option"
  debounce_ms :: pyval
  last_time :: int
  active_low :: bool
  state :: pyval

text \<open>
  The logical state for a raw reading, written out twice in the source (in \<^verbatim>\<open>__init__\<close>
  for the first read, in \<^verbatim>\<open>_irq_handler\<close> for the later ones): the reading itself when
  \<^verbatim>\<open>active_low\<close>, \<^verbatim>\<open>not\<close> of it otherwise.
\<close>

definition logical_of :: "bool \<Rightarrow> pyval \<Rightarrow> pyval" where
  "logical_of act_low physical_state =
     (if act_low then physical_state else py_not physical_state)"

text \<open>
  \<^verbatim>\<open>__init__\<close>. The last argument is the level that the pin's first read returns. Opening the
  pin is taken to succeed.
\<close>

definition init ::
  "platform \<Rightarrow> int \<Rightarrow> 'cb option \<Rightarrow> 'cb option \<Rightarrow> pyval \<Rightarrow> pyval \<Rightarrow> bool \<Rightarrow> level
     \<Rightarrow> error + 'cb button" where
  "init pl pin_no press_cb release_cb debounce pull act_low initial_level =
     (if pull \<noteq> PyNone
         \<and> \<not> (py_eq pull (PyInt (PULL_UP pl)) \<or> py_eq pull (PyInt (PULL_DOWN pl)))
      then Inl (ValueError ''pull must be Pin.PULL_UP, Pin.PULL_DOWN or None'')
      else if (case py_int debounce of None \<Rightarrow> True | Some d \<Rightarrow> d < 0)
      then Inl (ValueError ''debounce_ms must be a non-negative int'')
      else
        let initial_physical_state = pin_value initial_level
        in Inr \<lparr> pin = \<lparr> pin_id = pin_no, pin_pull = pull, irq_handler_set = True \<rparr>,
                 press_callback = press_cb,
                 release_callback = release_cb,
                 debounce_ms = debounce,
                 last_time = 0,
                 active_low = act_low,
                 state = logical_of act_low initial_physical_state \<rparr>)"

text \<open>
  \<^verbatim>\<open>if cb: cb()\<close>: the calls made for an optional callback.
\<close>

fun call_if_set :: "'cb option \<Rightarrow> 'cb list" where
  "call_if_set None = []"
| "call_if_set (Some f) = [f]"

text \<open>
  \<^verbatim>\<open>_irq_handler\<close>. \<open>now\<close> is what \<^verbatim>\<open>ticks_ms()\<close> returns on entry, \<open>lvl\<close> the level that
  \<^verbatim>\<open>self._pin.value()\<close> returns when the handler reads the pin, after the debounce test.
  The result is the button afterwards and the callbacks called, in order.
\<close>

definition irq_handler ::
  "platform \<Rightarrow> 'cb button \<Rightarrow> int \<Rightarrow> level \<Rightarrow> error + ('cb button \<times> 'cb list)" where
  "irq_handler pl b now lvl =
     (case py_int_lt (ticks_diff pl now (last_time b)) (debounce_ms b) of
        Inl e \<Rightarrow> Inl e
      | Inr True \<Rightarrow> Inr (b, [])
      | Inr False \<Rightarrow>
          let physical_state = pin_value lvl;
              logical_state = logical_of (active_low b) physical_state
          in if \<not> py_eq logical_state (state b)
             then
               let b' = b\<lparr> last_time := now, state := logical_state \<rparr>
               in if py_eq (state b') (PyInt 0)
                  then Inr (b', call_if_set (press_callback b'))
                  else Inr (b', call_if_set (release_callback b'))
             else Inr (b, []))"

definition is_pressed :: "'cb button \<Rightarrow> bool" where
  "is_pressed b = py_eq (state b) (PyInt 0)"

definition is_released :: "'cb button \<Rightarrow> bool" where
  "is_released b = py_eq (state b) (PyInt 1)"

definition deinit :: "'cb button \<Rightarrow> 'cb button" where
  "deinit b = b\<lparr> pin := (pin b)\<lparr> irq_handler_set := False \<rparr> \<rparr>"

subsection \<open>Sequences of operations\<close>

text \<open>
  An operation on a constructed button that can change it: one invocation of the interrupt
  handler, or \<^verbatim>\<open>deinit()\<close>. A run stops at the first error, as the exception would.
\<close>

datatype op = Irq int level | Deinit

fun step :: "platform \<Rightarrow> 'cb button \<Rightarrow> op \<Rightarrow> error + 'cb button" where
  "step pl b (Irq now lvl) =
     (case irq_handler pl b now lvl of Inl e \<Rightarrow> Inl e | Inr (b', cs) \<Rightarrow> Inr b')"
| "step pl b Deinit = Inr (deinit b)"

fun run :: "platform \<Rightarrow> 'cb button \<Rightarrow> op list \<Rightarrow> error + 'cb button" where
  "run pl b [] = Inr b"
| "run pl b (x # xs) =
     (case step pl b x of Inl e \<Rightarrow> Inl e | Inr b' \<Rightarrow> run pl b' xs)"

text \<open>
  Observers of a sequence of handler invocations, each given as the pair of its
  \<^verbatim>\<open>ticks_ms()\<close> reading and the level it reads. An invocation is an accepted transition
  when it changes the logical state. \<open>transitions\<close> lists, for each accepted transition in
  order, the new \<open>last_time\<close> and the new state; \<open>callbacks\<close> lists the callbacks called, in
  order.
\<close>

fun transitions :: "platform \<Rightarrow> 'cb button \<Rightarrow> (int \<times> level) list \<Rightarrow> (int \<times> pyval) list" where
  "transitions pl b [] = []"
| "transitions pl b ((now, lvl) # es) =
     (case irq_handler pl b now lvl of
        Inl e \<Rightarrow> []
      | Inr (b', cs) \<Rightarrow>
          (if state b' \<noteq> state b then [(last_time b', state b')] else [])
            @ transitions pl b' es)"

fun callbacks :: "platform \<Rightarrow> 'cb button \<Rightarrow> (int \<times> level) list \<Rightarrow> 'cb list" where
  "callbacks pl b [] = []"
| "callbacks pl b ((now, lvl) # es) =
     (case irq_handler pl b now lvl of
        Inl e \<Rightarrow> []
      | Inr (b', cs) \<Rightarrow> cs @ callbacks pl b' es)"

text \<open>Every two neighbours of a list of times are at least \<open>d\<close> apart by \<open>ticks_diff\<close>.\<close>

fun spaced :: "platform \<Rightarrow> int \<Rightarrow> int list \<Rightarrow> bool" where
  "spaced pl d (t # t' # ts) = (d \<le> ticks_diff pl t' t \<and> spaced pl d (t' # ts))"
| "spaced pl d ts = True"

text \<open>The callback that matches a logical state: the press callback for 0.\<close>

definition matching_callback :: "'cb button \<Rightarrow> pyval \<Rightarrow> 'cb option" where
  "matching_callback b s = (if py_eq s (PyInt 0) then press_callback b else release_callback b)"

text \<open>A platform to run examples on: a tick counter of period \<open>2 ^ 30\<close>.\<close>

definition example_platform :: platform where
  "example_platform = \<lparr> PULL_UP = 1, PULL_DOWN = 2, TICKS_PERIOD = 1073741824 \<rparr>"

text \<open>
  The button of the spec's scenario: pin 4 with the pull-up of the example platform, a
  debounce of 50 ms, active low, first read high.
\<close>

definition scenario_button :: "string button" where
  "scenario_button =
     \<lparr> pin = \<lparr> pin_id = 4, pin_pull = PyInt 1, irq_handler_set = True \<rparr>,
       press_callback = Some ''press'',
       release_callback = Some ''release'',
       debounce_ms = PyInt 50,
       last_time = 0,
       active_low = True,
       state = PyInt 1 \<rparr>"

text \<open>
  Two more buttons for examples, both constructed while the pin reads low: an active-low
  one with the pull-up and an active-high one with the pull-down of the example platform.
\<close>

definition active_low_button :: "string button" where
  "active_low_button =
     \<lparr> pin = \<lparr> pin_id = 4, pin_pull = PyInt 1, irq_handler_set = True \<rparr>,
       press_callback = Some ''press'',
       release_callback = Some ''release'',
       debounce_ms = PyInt 50,
       last_time = 0,
       active_low = True,
       state = PyInt 0 \<rparr>"

definition active_high_button :: "string button" where
  "active_high_button =
     \<lparr> pin = \<lparr> pin_id = 4, pin_pull = PyInt 2, irq_handler_set = True \<rparr>,
       press_callback = Some ''press'',
       release_callback = Some ''release'',
       debounce_ms = PyInt 50,
       last_time = 0,
       active_low = False,
       state = PyBool True \<rparr>"

text \<open>
  What construction establishes and every operation keeps: the debounce interval is a
  non-negative instance of \<^verbatim>\<open>int\<close> and the state has the value 0 or 1.
\<close>

definition wf_button :: "'cb button \<Rightarrow> bool" where
  "wf_button b =
     ((case py_int (debounce_ms b) of None \<Rightarrow> False | Some d \<Rightarrow> 0 \<le> d)
      \<and> (py_int (state b) = Some 0 \<or> py_int (state b) = Some 1))"

section \<open>Properties\<close>

subsection \<open>The handler, case by case\<close>

lemma py_eq_refl: "py_eq a a"
  by (cases a) (simp_all add: py_eq_def)

lemma py_eq_neq: "\<not> py_eq a c \<Longrightarrow> a \<noteq> c"
  using py_eq_refl by auto

lemma irq_handler_TypeError:
  "py_int (debounce_ms b) = None \<Longrightarrow> \<exists>e. irq_handler pl b now lvl = Inl e"
  by (simp add: irq_handler_def py_int_lt_def)

lemma irq_handler_eq:
  assumes "py_int (debounce_ms b) = Some d"
  shows "irq_handler pl b now lvl =
     (if ticks_diff pl now (last_time b) < d
         \<or> py_eq (logical_of (active_low b) (pin_value lvl)) (state b)
      then Inr (b, [])
      else Inr (b\<lparr> last_time := now, state := logical_of (active_low b) (pin_value lvl) \<rparr>,
                call_if_set (matching_callback b (logical_of (active_low b) (pin_value lvl)))))"
  using assms
  by (auto simp: irq_handler_def py_int_lt_def matching_callback_def Let_def split: bool.splits)

lemma irq_handler_fields:
  assumes "irq_handler pl b now lvl = Inr (b', cs)"
  shows "debounce_ms b' = debounce_ms b \<and> active_low b' = active_low b
       \<and> press_callback b' = press_callback b \<and> release_callback b' = release_callback b
       \<and> pin b' = pin b"
proof (cases "py_int (debounce_ms b)")
  case None
  then show ?thesis using assms irq_handler_TypeError [of b pl now lvl] by auto
next
  case (Some d)
  then show ?thesis using assms by (auto simp: irq_handler_eq split: if_splits)
qed

lemma logical_of_bit:
  "py_int (logical_of al (pin_value lvl)) = Some 0 \<or> py_int (logical_of al (pin_value lvl)) = Some 1"
  by (cases lvl) (simp_all add: logical_of_def py_not_def)

lemma init_wf:
  assumes "init pl p pc rc dms pull al l0 = Inr b"
  shows "wf_button b"
  using assms logical_of_bit [of al l0]
  by (auto simp: init_def wf_button_def Let_def split: if_splits option.splits)

lemma irq_handler_wf:
  assumes "wf_button b"
  shows "\<exists>b' cs. irq_handler pl b now lvl = Inr (b', cs) \<and> wf_button b'"
proof -
  from assms obtain d where d: "py_int (debounce_ms b) = Some d"
    by (auto simp: wf_button_def split: option.splits)
  show ?thesis
    using assms d logical_of_bit [of "active_low b" lvl]
    by (auto simp: irq_handler_eq wf_button_def)
qed

lemma deinit_wf: "wf_button b \<Longrightarrow> wf_button (deinit b)"
  by (simp add: wf_button_def deinit_def)

lemma step_wf:
  assumes "wf_button b"
  shows "\<exists>b'. step pl b x = Inr b' \<and> wf_button b'"
proof (cases x)
  case (Irq now lvl)
  then show ?thesis using irq_handler_wf [OF assms, of pl now lvl] by auto
next
  case Deinit
  then show ?thesis using deinit_wf [OF assms] by simp
qed

lemma run_wf:
  "wf_button b \<Longrightarrow> \<exists>b'. run pl b xs = Inr b' \<and> wf_button b'"
proof (induction xs arbitrary: b)
  case Nil
  then show ?case by simp
next
  case (Cons x xs)
  from step_wf [OF Cons.prems, of pl x] obtain b1
    where b1: "step pl b x = Inr b1" "wf_button b1" by blast
  from Cons.IH [OF b1(2)] b1(1) show ?case by simp
qed

lemma wf_complement: "wf_button b \<Longrightarrow> is_pressed b = (\<not> is_released b)"
  by (auto simp: wf_button_def is_pressed_def is_released_def py_eq_def)

lemma spaced_tl: "spaced pl d (t # ts) \<Longrightarrow> spaced pl d ts"
  by (cases ts) simp_all

lemma transitions_spaced:
  "py_int (debounce_ms b) = Some d \<Longrightarrow>
     spaced pl d (last_time b # map fst (transitions pl b es))"
proof (induction es arbitrary: b)
  case Nil
  then show ?case by simp
next
  case (Cons e es)
  obtain now lvl where e: "e = (now, lvl)" by (cases e)
  let ?c = "logical_of (active_low b) (pin_value lvl)"
  show ?case
  proof (cases "ticks_diff pl now (last_time b) < d \<or> py_eq ?c (state b)")
    case True
    then show ?thesis using Cons e by (simp add: irq_handler_eq)
  next
    case False
    let ?b' = "b\<lparr> last_time := now, state := ?c \<rparr>"
    have "py_int (debounce_ms ?b') = Some d" using Cons.prems by simp
    from Cons.IH [OF this] have "spaced pl d (now # map fst (transitions pl ?b' es))" by simp
    then show ?thesis using False Cons.prems e py_eq_neq [of ?c "state b"]
      by (simp add: irq_handler_eq)
  qed
qed

lemma transitions_times:
  "sorted_wrt R (map fst es) \<Longrightarrow>
     sorted_wrt R (map fst (transitions pl b es))
     \<and> set (map fst (transitions pl b es)) \<subseteq> set (map fst es)"
proof (induction es arbitrary: b)
  case Nil
  then show ?case by simp
next
  case (Cons e es)
  obtain now lvl where e: "e = (now, lvl)" by (cases e)
  show ?case
  proof (cases "py_int (debounce_ms b)")
    case None
    then show ?thesis using irq_handler_TypeError [of b pl now lvl] e by auto
  next
    case (Some d)
    let ?c = "logical_of (active_low b) (pin_value lvl)"
    let ?b' = "b\<lparr> last_time := now, state := ?c \<rparr>"
    from Cons.prems e have tl: "sorted_wrt R (map fst es)" and hd: "\<forall>t \<in> set (map fst es). R now t"
      by auto
    note ih1 = Cons.IH [OF tl, of b] and ih2 = Cons.IH [OF tl, of ?b']
    show ?thesis
    proof (cases "ticks_diff pl now (last_time b) < d \<or> py_eq ?c (state b)")
      case True
      then show ?thesis using Some e ih1 by (auto simp: irq_handler_eq)
    next
      case False
      from ih2 hd have "\<forall>t \<in> set (map fst (transitions pl ?b' es)). R now t"
        by blast
      then show ?thesis using False Some e ih2 hd py_eq_neq [of ?c "state b"]
        by (auto simp: irq_handler_eq)
    qed
  qed
qed

lemma matching_callback_cong:
  "press_callback b' = press_callback b \<Longrightarrow> release_callback b' = release_callback b \<Longrightarrow>
     matching_callback b' = matching_callback b"
  by (rule ext) (simp add: matching_callback_def)

lemma callbacks_transitions:
  "callbacks pl b es =
     concat (map (\<lambda>(t, s). call_if_set (matching_callback b s)) (transitions pl b es))"
proof (induction es arbitrary: b)
  case Nil
  then show ?case by simp
next
  case (Cons e es)
  obtain now lvl where e: "e = (now, lvl)" by (cases e)
  show ?case
  proof (cases "py_int (debounce_ms b)")
    case None
    then show ?thesis using irq_handler_TypeError [of b pl now lvl] e by auto
  next
    case (Some d)
    let ?c = "logical_of (active_low b) (pin_value lvl)"
    let ?b' = "b\<lparr> last_time := now, state := ?c \<rparr>"
    have mc: "matching_callback ?b' = matching_callback b"
      by (rule matching_callback_cong) simp_all
    show ?thesis
    proof (cases "ticks_diff pl now (last_time b) < d \<or> py_eq ?c (state b)")
      case True
      then show ?thesis using Some e Cons.IH [of b] by (simp add: irq_handler_eq)
    next
      case False
      then show ?thesis using Some e Cons.IH [of ?b'] mc py_eq_neq [of ?c "state b"]
        by (simp add: irq_handler_eq)
    qed
  qed
qed

subsection \<open>Clock arithmetic, teardown and the example buttons\<close>

lemma scenario_init:
  "init example_platform 4 (Some ''press'') (Some ''release'') (PyInt 50) (PyInt 1) True High
     = Inr scenario_button"
  by (simp add: init_def example_platform_def scenario_button_def py_eq_def logical_of_def)

lemma scenario_debounce: "py_int (debounce_ms scenario_button) = Some 50"
  by (simp add: scenario_button_def)

lemma ticks_diff_small:
  assumes "0 \<le> a - b" and "a - b < TICKS_PERIOD pl div 2"
  shows "ticks_diff pl a b = a - b"
proof -
  let ?h = "TICKS_PERIOD pl div 2"
  have "0 \<le> a - b + ?h" and "a - b + ?h < TICKS_PERIOD pl"
    using assms by linarith+
  then have "(a - b + ?h) mod TICKS_PERIOD pl = a - b + ?h"
    by (simp add: mod_pos_pos_trivial)
  then show ?thesis by (simp add: ticks_diff_def)
qed

lemma spaced_all_pairs:
  assumes "sorted ts" and "\<forall>t \<in> set ts. 0 \<le> t \<and> t < TICKS_PERIOD pl div 2"
      and "spaced pl d ts"
  shows "sorted_wrt (\<lambda>t t'. d \<le> t' - t) ts"
  using assms
proof (induction ts)
  case Nil
  then show ?case by simp
next
  case (Cons t ts)
  have tl: "sorted_wrt (\<lambda>t t'. d \<le> t' - t) ts"
    using Cons spaced_tl [of pl d t ts] by simp
  have "d \<le> x - t" if x: "x \<in> set ts" for x
  proof (cases ts)
    case Nil
    then show ?thesis using x by simp
  next
    case (Cons t' rest)
    have r: "0 \<le> t' - t" "t' - t < TICKS_PERIOD pl div 2"
      using Cons.prems(1,2) Cons by auto
    have "d \<le> ticks_diff pl t' t" using Cons.prems(3) Cons by simp
    then have "d \<le> t' - t" using r by (simp add: ticks_diff_small)
    moreover have "t' \<le> x" using x Cons Cons.prems(1) by auto
    ultimately show ?thesis by linarith
  qed
  with tl show ?case by simp
qed

lemma pressed_logical_of:
  "py_eq (logical_of al (pin_value lvl)) (PyInt 0) = (if al then lvl = Low else lvl = High)"
  "py_eq (logical_of al (pin_value lvl)) (PyInt 1) = (if al then lvl = High else lvl = Low)"
  by (cases lvl; simp add: logical_of_def py_not_def py_eq_def)+

lemma deinit_funpow:
  "state ((deinit ^^ n) b) = state b \<and> last_time ((deinit ^^ n) b) = last_time b
   \<and> debounce_ms ((deinit ^^ n) b) = debounce_ms b
   \<and> pin_id (pin ((deinit ^^ n) b)) = pin_id (pin b)
   \<and> pin_pull (pin ((deinit ^^ n) b)) = pin_pull (pin b)"
  by (induction n) (simp_all add: deinit_def)

lemma run_deinit: "run pl b (replicate n Deinit) = Inr ((deinit ^^ n) b)"
  by (induction n arbitrary: b) (simp_all add: funpow_swap1)

lemmas eval_defs = irq_handler_def py_int_lt_def ticks_diff_def example_platform_def
  scenario_button_def logical_of_def py_eq_def py_not_def Let_def is_pressed_def is_released_def
  init_def deinit_def matching_callback_def

subsection \<open>Bounce rejection\<close>

text \<open>
  C1. When the debounce interval is the integer \<open>d\<close> and \<open>ticks_diff\<close> from
  \<open>last_time\<close> to \<open>now\<close> is below \<open>d\<close>, the handler returns the button as it was and
  calls nothing, whatever the pin reads. So along any sequence of invocations each accepted
  transition is at least \<open>d\<close> after the one before it, by \<open>ticks_diff\<close>; and when the
  invocation times do not decrease and stay below half the tick period, where \<open>ticks_diff\<close>
  is plain subtraction, every two accepted transitions are at least \<open>d\<close> apart.
\<close>

theorem bounce_discarded:
  assumes "py_int (debounce_ms b) = Some d"
  shows "(ticks_diff pl now (last_time b) < d \<longrightarrow> irq_handler pl b now lvl = Inr (b, []))
       \<and> spaced pl d (map fst (transitions pl b es))
       \<and> (sorted (map fst es)
            \<and> (\<forall>t \<in> set (map fst es). 0 \<le> t \<and> t < TICKS_PERIOD pl div 2) \<longrightarrow>
          sorted_wrt (\<lambda>t t'. d \<le> t' - t) (map fst (transitions pl b es)))"
proof -
  have sp: "spaced pl d (map fst (transitions pl b es))"
    using spaced_tl [OF transitions_spaced [OF assms, of pl es]] .
  have "sorted_wrt (\<lambda>t t'. d \<le> t' - t) (map fst (transitions pl b es))"
    if s: "sorted (map fst es)"
      and r: "\<forall>t \<in> set (map fst es). 0 \<le> t \<and> t < TICKS_PERIOD pl div 2"
  proof -
    from transitions_times [OF s, of pl b]
    have st: "sorted (map fst (transitions pl b es))"
      and sub: "set (map fst (transitions pl b es)) \<subseteq> set (map fst es)" by simp_all
    from sub r
    have rg: "\<forall>t \<in> set (map fst (transitions pl b es)). 0 \<le> t \<and> t < TICKS_PERIOD pl div 2"
      by blast
    show ?thesis by (rule spaced_all_pairs [OF st rg sp])
  qed
  with sp assms show ?thesis by (simp add: irq_handler_eq)
qed

theorem bounce_discarded_witness:
  "py_int (debounce_ms scenario_button) = Some 50
   \<and> ticks_diff example_platform 10 (last_time scenario_button) < 50
   \<and> irq_handler example_platform scenario_button 10 Low = Inr (scenario_button, [])
   \<and> sorted (map fst [(50 :: int, Low), (60, High), (110, High), (120, Low), (170, Low)])
   \<and> map fst (transitions example_platform scenario_button
                 [(50, Low), (60, High), (110, High), (120, Low), (170, Low)]) = [50, 110, 170]
   \<and> spaced example_platform 50 [50, 110, 170]
   \<and> sorted_wrt (\<lambda>t t'. (50 :: int) \<le> t' - t) [50, 110, 170]"
proof -
  let ?es = "[(50 :: int, Low), (60, High), (110, High), (120, Low), (170, Low)]"
  have t: "ticks_diff example_platform 10 (last_time scenario_button) < 50"
    by (simp add: ticks_diff_def example_platform_def scenario_button_def)
  have tr: "map fst (transitions example_platform scenario_button ?es) = [50, 110, 170]"
    by (simp add: eval_defs)
  have s: "sorted (map fst ?es)"
    "\<forall>t \<in> set (map fst ?es). 0 \<le> t \<and> t < TICKS_PERIOD example_platform div 2"
    by (simp_all add: example_platform_def)
  from bounce_discarded [OF scenario_debounce, of example_platform 10 Low ?es]
    t tr s scenario_debounce
  show ?thesis by (simp del: transitions.simps)
qed

subsection \<open>The scenario with a debounce of 50 ms\<close>

text \<open>
  C2, as the spec words it, fails: the button starts with \<open>last_time = 0\<close>, so the edge to
  low at \<open>t = 0\<close> has an elapsed time of 0, below 50, and is discarded. Nothing is accepted at
  the times 0, 10, 60 and no callback is called.
\<close>
theorem scenario_first_edge_counterexample:
  "init example_platform 4 (Some ''press'') (Some ''release'') (PyInt 50) (PyInt 1) True High
     = Inr scenario_button
   \<and> is_released scenario_button
   \<and> irq_handler example_platform scenario_button 0 Low = Inr (scenario_button, [])
   \<and> irq_handler example_platform scenario_button 0 Low
       \<noteq> Inr (scenario_button\<lparr> last_time := 0, state := PyInt 0 \<rparr>, [''press''])
   \<and> transitions example_platform scenario_button [(0, Low), (10, High), (60, High)] = []
   \<and> callbacks example_platform scenario_button [(0, Low), (10, High), (60, High)] = []"
  by (simp add: eval_defs)

text \<open>
  C2, amended. The initial state is released and \<open>last_time\<close> is 0. The three edges of the
  scenario are discarded at the times 0, 10, 60. Moved to the times \<open>k\<close>, \<open>k + 10\<close>,
  \<open>k + 60\<close> with \<open>k\<close> at least 50 (and \<open>k + 60\<close> below half the tick period), they behave
  as the scenario says: the edge to low at \<open>k\<close> is accepted (press callback, state pressed,
  \<open>last_time = k\<close>), the edge to high at \<open>k + 10\<close> is discarded, the edge to high at
  \<open>k + 60\<close> is accepted (release callback, state released, \<open>last_time = k + 60\<close>).
\<close>
theorem scenario_shifted:
  assumes init: "init pl p (Some pc) (Some rc) (PyInt 50) pull True High = Inr b"
      and k: "50 \<le> k" "k + 60 < TICKS_PERIOD pl div 2"
  shows "is_released b \<and> last_time b = 0
       \<and> irq_handler pl b 0 Low = Inr (b, [])
       \<and> transitions pl b [(0, Low), (10, High), (60, High)] = []
       \<and> callbacks pl b [(0, Low), (10, High), (60, High)] = []
       \<and> irq_handler pl b k Low = Inr (b\<lparr> last_time := k, state := PyInt 0 \<rparr>, [pc])
       \<and> is_pressed (b\<lparr> last_time := k, state := PyInt 0 \<rparr>)
       \<and> irq_handler pl (b\<lparr> last_time := k, state := PyInt 0 \<rparr>) (k + 10) High
           = Inr (b\<lparr> last_time := k, state := PyInt 0 \<rparr>, [])
       \<and> irq_handler pl (b\<lparr> last_time := k, state := PyInt 0 \<rparr>) (k + 60) High
           = Inr (b\<lparr> last_time := k + 60, state := PyInt 1 \<rparr>, [rc])
       \<and> is_released (b\<lparr> last_time := k + 60, state := PyInt 1 \<rparr>)
       \<and> transitions pl b [(k, Low), (k + 10, High), (k + 60, High)]
           = [(k, PyInt 0), (k + 60, PyInt 1)]
       \<and> callbacks pl b [(k, Low), (k + 10, High), (k + 60, High)] = [pc, rc]"
proof -
  from init have b: "debounce_ms b = PyInt 50" "last_time b = 0" "active_low b"
    "state b = PyInt 1" "press_callback b = Some pc" "release_callback b = Some rc"
    by (auto simp: init_def logical_of_def split: if_splits)
  let ?b1 = "b\<lparr> last_time := k, state := PyInt 0 \<rparr>"
  let ?b2 = "b\<lparr> last_time := k + 60, state := PyInt 1 \<rparr>"
  have d: "py_int (debounce_ms b) = Some 50" "py_int (debounce_ms ?b1) = Some 50"
    using b by simp_all
  have t0: "ticks_diff pl 0 0 = 0" using k by (simp add: ticks_diff_small)
  have t10: "ticks_diff pl 10 0 = 10" using k by (simp add: ticks_diff_small)
  have tk: "ticks_diff pl k 0 = k" using k by (simp add: ticks_diff_small)
  have tk10: "ticks_diff pl (k + 10) k = 10" using k by (simp add: ticks_diff_small)
  have tk60: "ticks_diff pl (k + 60) k = 60" using k by (simp add: ticks_diff_small)
  have h0: "irq_handler pl b 0 Low = Inr (b, [])"
    using b t0 by (simp add: irq_handler_eq [OF d(1)])
  have h10: "irq_handler pl b 10 High = Inr (b, [])"
    using b t10 by (simp add: irq_handler_eq [OF d(1)])
  have h60: "irq_handler pl b 60 High = Inr (b, [])"
    using b by (simp add: irq_handler_eq [OF d(1)] logical_of_def py_eq_def)
  have hk: "irq_handler pl b k Low = Inr (?b1, [pc])"
    using b tk k(1)
    by (simp add: irq_handler_eq [OF d(1)] logical_of_def py_eq_def matching_callback_def)
  have hk10: "irq_handler pl ?b1 (k + 10) High = Inr (?b1, [])"
    using b tk10 by (simp add: irq_handler_eq [OF d(2)])
  have hk60: "irq_handler pl ?b1 (k + 60) High = Inr (?b2, [rc])"
    using b tk60
    by (simp add: irq_handler_eq [OF d(2)] logical_of_def py_eq_def matching_callback_def)
  have tr0: "transitions pl b [(0, Low), (10, High), (60, High)] = []"
    by (simp add: h0 h10 h60)
  have cb0: "callbacks pl b [(0, Low), (10, High), (60, High)] = []"
    by (simp add: h0 h10 h60)
  have trk: "transitions pl b [(k, Low), (k + 10, High), (k + 60, High)]
           = [(k, PyInt 0), (k + 60, PyInt 1)]"
    using b by (simp add: hk hk10 hk60)
  have cbk: "callbacks pl b [(k, Low), (k + 10, High), (k + 60, High)] = [pc, rc]"
    by (simp add: hk hk10 hk60)
  have q: "is_released b" "is_pressed ?b1" "is_released ?b2"
    using b by (simp_all add: is_released_def is_pressed_def py_eq_def)
  show ?thesis
    using q b(2) h0 tr0 cb0 hk hk10 hk60 trk cbk by simp
qed

theorem scenario_shifted_witness:
  "init example_platform 4 (Some ''press'') (Some ''release'') (PyInt 50) (PyInt 1) True High
     = Inr scenario_button
   \<and> (50::int) \<le> 50 \<and> (50::int) + 60 < TICKS_PERIOD example_platform div 2
   \<and> transitions example_platform scenario_button [(50, Low), (60, High), (110, High)]
       = [(50, PyInt 0), (110, PyInt 1)]
   \<and> callbacks example_platform scenario_button [(50, Low), (60, High), (110, High)]
       = [''press'', ''release'']"
proof -
  have k: "(50::int) \<le> 50" "(50::int) + 60 < TICKS_PERIOD example_platform div 2"
    by (simp_all add: example_platform_def)
  from scenario_shifted [OF scenario_init k] scenario_init k
  show ?thesis by (simp del: transitions.simps callbacks.simps)
qed

subsection \<open>Accepted transitions\<close>

text \<open>
  C3. When the debounce test passes and the candidate state read from the pin differs from
  the current state, the handler sets \<open>last_time\<close> to \<open>now\<close> and \<open>state\<close> to the candidate
  and changes nothing else; it calls the press callback when the new state is pressed and
  the release callback otherwise (then the new state is released), once if that callback is
  set and not at all if it is not.
\<close>
theorem accepted_transition:
  assumes "py_int (debounce_ms b) = Some d"
      and "\<not> ticks_diff pl now (last_time b) < d"
      and "\<not> py_eq (logical_of (active_low b) (pin_value lvl)) (state b)"
  shows "let c = logical_of (active_low b) (pin_value lvl);
             b' = b\<lparr> last_time := now, state := c \<rparr>
         in irq_handler pl b now lvl
              = Inr (b', case (if is_pressed b' then press_callback b else release_callback b) of
                           None \<Rightarrow> [] | Some f \<Rightarrow> [f])
            \<and> is_released b' = (\<not> is_pressed b')"
proof -
  let ?c = "logical_of (active_low b) (pin_value lvl)"
  let ?b' = "b\<lparr> last_time := now, state := ?c \<rparr>"
  have "py_int ?c = Some 0 \<or> py_int ?c = Some 1"
    by (rule logical_of_bit)
  then have compl: "is_released ?b' = (\<not> is_pressed ?b')"
    by (auto simp: is_released_def is_pressed_def py_eq_def)
  have "call_if_set x = (case x of None \<Rightarrow> [] | Some f \<Rightarrow> [f])" for x :: "'a option"
    by (cases x) simp_all
  then have "irq_handler pl b now lvl
      = Inr (?b', case (if is_pressed ?b' then press_callback b else release_callback b) of
                    None \<Rightarrow> [] | Some f \<Rightarrow> [f])"
    using assms by (simp add: irq_handler_eq matching_callback_def is_pressed_def)
  with compl show ?thesis by (simp add: Let_def)
qed

theorem accepted_transition_witness:
  "py_int (debounce_ms scenario_button) = Some 50
   \<and> \<not> ticks_diff example_platform 70 (last_time scenario_button) < 50
   \<and> \<not> py_eq (logical_of (active_low scenario_button) (pin_value Low)) (state scenario_button)
   \<and> irq_handler example_platform scenario_button 70 Low
       = Inr (scenario_button\<lparr> last_time := 70, state := PyInt 0 \<rparr>, [''press''])
   \<and> is_pressed (scenario_button\<lparr> last_time := 70, state := PyInt 0 \<rparr>)
   \<and> \<not> is_released (scenario_button\<lparr> last_time := 70, state := PyInt 0 \<rparr>)"
proof -
  have h: "\<not> ticks_diff example_platform 70 (last_time scenario_button) < 50"
    "\<not> py_eq (logical_of (active_low scenario_button) (pin_value Low)) (state scenario_button)"
    by (simp_all add: eval_defs)
  have p: "logical_of (active_low scenario_button) (pin_value Low) = PyInt 0"
    "is_pressed (scenario_button\<lparr> last_time := 70, state := PyInt 0 \<rparr>)"
    "press_callback scenario_button = Some ''press''"
    by (simp_all add: eval_defs)
  from accepted_transition [OF scenario_debounce h] h p scenario_debounce
  show ?thesis by (simp add: Let_def)
qed

subsection \<open>Glitch rejection\<close>

text \<open>
  C4. When the debounce test passes and the candidate state, computed from the level that
  the handler reads after that test, equals the current state, the handler returns the
  button as it was and calls nothing. (The handler has no other level to go by: it ignores
  its argument and reads the pin once, after the test.)
\<close>
theorem glitch_discarded:
  assumes "py_int (debounce_ms b) = Some d"
      and "\<not> ticks_diff pl now (last_time b) < d"
      and "py_eq (logical_of (active_low b) (pin_value lvl)) (state b)"
  shows "irq_handler pl b now lvl = Inr (b, [])"
  using assms by (simp add: irq_handler_eq)

theorem glitch_discarded_witness:
  "irq_handler example_platform scenario_button 70 Low
     = Inr (scenario_button\<lparr> last_time := 70, state := PyInt 0 \<rparr>, [''press''])
   \<and> py_int (debounce_ms (scenario_button\<lparr> last_time := 70, state := PyInt 0 \<rparr>)) = Some 50
   \<and> \<not> ticks_diff example_platform 130
         (last_time (scenario_button\<lparr> last_time := 70, state := PyInt 0 \<rparr>)) < 50
   \<and> py_eq (logical_of (active_low (scenario_button\<lparr> last_time := 70, state := PyInt 0 \<rparr>))
              (pin_value Low))
        (state (scenario_button\<lparr> last_time := 70, state := PyInt 0 \<rparr>))
   \<and> irq_handler example_platform (scenario_button\<lparr> last_time := 70, state := PyInt 0 \<rparr>)
        130 Low
       = Inr (scenario_button\<lparr> last_time := 70, state := PyInt 0 \<rparr>, [])"
proof -
  let ?b = "scenario_button\<lparr> last_time := 70, state := PyInt 0 \<rparr>"
  have a: "irq_handler example_platform scenario_button 70 Low = Inr (?b, [''press''])"
    by (simp add: eval_defs)
  have h: "py_int (debounce_ms ?b) = Some 50"
    "\<not> ticks_diff example_platform 130 (last_time ?b) < 50"
    "py_eq (logical_of (active_low ?b) (pin_value Low)) (state ?b)"
    by (simp_all add: eval_defs)
  from glitch_discarded [OF h] a h show ?thesis by simp
qed

subsection \<open>Polarity\<close>

text \<open>
  C5. Construction and the handler map the raw level to the logical state by the same rule.
  After construction the button is pressed exactly when the first read is low (active low)
  or high (active high), and released in the opposite case. After a handler invocation that
  passes the debounce test, accepted or not, the button is pressed exactly when the level
  read is low (active low) or high (active high). In particular, for a button constructed
  while the pin reads low, a read of high after the debounce window gives the state
  released and the release callback when active low, and the state pressed and the press
  callback when active high.
\<close>

theorem polarity_rule:
  assumes init: "init pl p pc rc dms pull al l0 = Inr b0"
      and dms: "py_int dms = Some d0"
      and after0: "\<not> ticks_diff pl t 0 < d0"
      and deb: "py_int (debounce_ms b) = Some d"
      and pass: "\<not> ticks_diff pl now (last_time b) < d"
      and h: "irq_handler pl b now lvl = Inr (b', cs)"
  shows "is_pressed b0 = (if al then l0 = Low else l0 = High)
       \<and> is_released b0 = (if al then l0 = High else l0 = Low)
       \<and> is_pressed b' = (if active_low b then lvl = Low else lvl = High)
       \<and> is_released b' = (if active_low b then lvl = High else lvl = Low)
       \<and> (l0 = Low \<and> al \<longrightarrow>
            irq_handler pl b0 t High
              = Inr (b0\<lparr> last_time := t, state := PyInt 1 \<rparr>, call_if_set rc)
            \<and> is_released (b0\<lparr> last_time := t, state := PyInt 1 \<rparr>))
       \<and> (l0 = Low \<and> \<not> al \<longrightarrow>
            irq_handler pl b0 t High
              = Inr (b0\<lparr> last_time := t, state := PyBool False \<rparr>, call_if_set pc)
            \<and> is_pressed (b0\<lparr> last_time := t, state := PyBool False \<rparr>))"
proof -
  from init have b0: "debounce_ms b0 = dms" "last_time b0 = 0" "active_low b0 = al"
    "state b0 = logical_of al (pin_value l0)" "press_callback b0 = pc" "release_callback b0 = rc"
    by (auto simp: init_def Let_def split: if_splits)
  have q0: "is_pressed b0 = (if al then l0 = Low else l0 = High)"
    "is_released b0 = (if al then l0 = High else l0 = Low)"
    using b0(4) by (simp_all only: is_pressed_def is_released_def pressed_logical_of)
  let ?c = "logical_of (active_low b) (pin_value lvl)"
  have q: "is_pressed b' = (if active_low b then lvl = Low else lvl = High)
         \<and> is_released b' = (if active_low b then lvl = High else lvl = Low)"
  proof (cases "py_eq ?c (state b)")
    case True
    then have "b' = b" using h deb pass by (simp add: irq_handler_eq)
    moreover have "py_eq (state b) (PyInt 0) = py_eq ?c (PyInt 0)"
      "py_eq (state b) (PyInt 1) = py_eq ?c (PyInt 1)"
      using True logical_of_bit [of "active_low b" lvl]
      by (auto simp: py_eq_def split: option.splits)
    ultimately show ?thesis
      by (simp only: is_pressed_def is_released_def pressed_logical_of)
  next
    case False
    then have "state b' = ?c" using h deb pass by (auto simp: irq_handler_eq)
    then show ?thesis
      by (simp only: is_pressed_def is_released_def pressed_logical_of)
  qed
  have d0: "py_int (debounce_ms b0) = Some d0" using b0 dms by simp
  have c: "(l0 = Low \<and> al \<longrightarrow>
            irq_handler pl b0 t High
              = Inr (b0\<lparr> last_time := t, state := PyInt 1 \<rparr>, call_if_set rc)
            \<and> is_released (b0\<lparr> last_time := t, state := PyInt 1 \<rparr>))
       \<and> (l0 = Low \<and> \<not> al \<longrightarrow>
            irq_handler pl b0 t High
              = Inr (b0\<lparr> last_time := t, state := PyBool False \<rparr>, call_if_set pc)
            \<and> is_pressed (b0\<lparr> last_time := t, state := PyBool False \<rparr>))"
    using b0 after0
    by (simp add: irq_handler_eq [OF d0] logical_of_def py_not_def py_eq_def
          matching_callback_def is_pressed_def is_released_def)
  from q0 q c show ?thesis by simp
qed

theorem polarity_rule_witness:
  "init example_platform 4 (Some ''press'') (Some ''release'') (PyInt 50) (PyInt 1) True Low
     = Inr active_low_button
   \<and> init example_platform 4 (Some ''press'') (Some ''release'') (PyInt 50) (PyInt 2) False Low
     = Inr active_high_button
   \<and> py_int (PyInt 50) = Some 50
   \<and> \<not> ticks_diff example_platform 80 0 < 50
   \<and> py_int (debounce_ms scenario_button) = Some 50
   \<and> \<not> ticks_diff example_platform 70 (last_time scenario_button) < 50
   \<and> irq_handler example_platform scenario_button 70 Low
       = Inr (scenario_button\<lparr> last_time := 70, state := PyInt 0 \<rparr>, [''press''])
   \<and> is_pressed (scenario_button\<lparr> last_time := 70, state := PyInt 0 \<rparr>)
   \<and> is_pressed active_low_button
   \<and> irq_handler example_platform active_low_button 80 High
       = Inr (active_low_button\<lparr> last_time := 80, state := PyInt 1 \<rparr>, [''release''])
   \<and> is_released (active_low_button\<lparr> last_time := 80, state := PyInt 1 \<rparr>)
   \<and> is_released active_high_button
   \<and> irq_handler example_platform active_high_button 80 High
       = Inr (active_high_button\<lparr> last_time := 80, state := PyBool False \<rparr>, [''press''])
   \<and> is_pressed (active_high_button\<lparr> last_time := 80, state := PyBool False \<rparr>)"
proof -
  have il: "init example_platform 4 (Some ''press'') (Some ''release'') (PyInt 50) (PyInt 1)
             True Low = Inr active_low_button"
    by (simp add: init_def example_platform_def active_low_button_def py_eq_def logical_of_def)
  have ih: "init example_platform 4 (Some ''press'') (Some ''release'') (PyInt 50) (PyInt 2)
             False Low = Inr active_high_button"
    by (simp add: init_def example_platform_def active_high_button_def py_eq_def logical_of_def
          py_not_def)
  have a: "py_int (PyInt 50) = Some 50" "\<not> ticks_diff example_platform 80 0 < 50"
    "\<not> ticks_diff example_platform 70 (last_time scenario_button) < 50"
    by (simp_all add: ticks_diff_def example_platform_def scenario_button_def)
  have h: "irq_handler example_platform scenario_button 70 Low
       = Inr (scenario_button\<lparr> last_time := 70, state := PyInt 0 \<rparr>, [''press''])"
    by (simp add: eval_defs)
  from polarity_rule [OF il a(1,2) scenario_debounce a(3) h]
    polarity_rule [OF ih a(1,2) scenario_debounce a(3) h] il ih a h scenario_debounce
  show ?thesis by (simp add: scenario_button_def)
qed

subsection \<open>Validation at construction\<close>

text \<open>
  C6. Construction fails, always with a \<^verbatim>\<open>ValueError\<close>, exactly when \<^verbatim>\<open>debounce_ms\<close> is
  not a non-negative instance of \<^verbatim>\<open>int\<close> or \<^verbatim>\<open>pull\<close> is neither \<^verbatim>\<open>None\<close> nor equal to one
  of the two pull constants; otherwise it returns a button. It fails for \<open>- 1\<close> and, with a
  valid pull mode, succeeds for 0. On a constructed button no sequence of handler
  invocations and \<^verbatim>\<open>deinit()\<close> calls ends in an error (the two queries are total).
\<close>

theorem init_validation:
  shows "(\<exists>msg. init pl p pc rc dms pull al l0 = Inl (ValueError msg))
           = (\<not> (\<exists>n. py_int dms = Some n \<and> 0 \<le> n)
              \<or> (pull \<noteq> PyNone \<and> \<not> py_eq pull (PyInt (PULL_UP pl))
                    \<and> \<not> py_eq pull (PyInt (PULL_DOWN pl))))
       \<and> (\<exists>b. init pl p pc rc dms pull al l0 = Inr b)
           = (\<not> (\<exists>msg. init pl p pc rc dms pull al l0 = Inl (ValueError msg)))
       \<and> (\<exists>msg. init pl p pc rc (PyInt (- 1)) pull al l0 = Inl (ValueError msg))
       \<and> (pull = PyNone \<or> pull = PyInt (PULL_UP pl) \<or> pull = PyInt (PULL_DOWN pl) \<longrightarrow>
            (\<exists>b. init pl p pc rc (PyInt 0) pull al l0 = Inr b))
       \<and> (init pl p pc rc dms pull al l0 = Inr b0 \<longrightarrow> (\<exists>b. run pl b0 ops = Inr b))"
proof -
  have 1: "(\<exists>msg. init pl p pc rc dms pull al l0 = Inl (ValueError msg))
           = (\<not> (\<exists>n. py_int dms = Some n \<and> 0 \<le> n)
              \<or> (pull \<noteq> PyNone \<and> \<not> py_eq pull (PyInt (PULL_UP pl))
                    \<and> \<not> py_eq pull (PyInt (PULL_DOWN pl))))" for dms pull
    by (cases "py_int dms") (auto simp: init_def Let_def)
  have 2: "(\<exists>b. init pl p pc rc dms pull al l0 = Inr b)
           = (\<not> (\<exists>msg. init pl p pc rc dms pull al l0 = Inl (ValueError msg)))" for dms pull
    by (auto simp: init_def Let_def)
  have 3: "\<exists>msg. init pl p pc rc (PyInt (- 1)) pull al l0 = Inl (ValueError msg)"
    by (simp add: 1)
  have 4: "pull = PyNone \<or> pull = PyInt (PULL_UP pl) \<or> pull = PyInt (PULL_DOWN pl) \<longrightarrow>
            (\<exists>b. init pl p pc rc (PyInt 0) pull al l0 = Inr b)"
    by (auto simp: 2 1 py_eq_def)
  have 5: "init pl p pc rc dms pull al l0 = Inr b0 \<longrightarrow> (\<exists>b. run pl b0 ops = Inr b)"
    using init_wf run_wf by blast
  from 1 2 3 4 5 show ?thesis by blast
qed

theorem init_validation_witness:
  "init example_platform 4 (Some ''press'') (Some ''release'') (PyInt 50) (PyInt 1) True High
     = Inr scenario_button
   \<and> (\<exists>b. run example_platform scenario_button [Irq 70 Low, Deinit, Irq 130 High] = Inr b)
   \<and> (PyNone = PyNone \<or> PyNone = PyInt (PULL_UP example_platform)
        \<or> PyNone = PyInt (PULL_DOWN example_platform))
   \<and> (\<exists>b. init example_platform 4 (Some ''press'') (Some ''release'') (PyInt 0) PyNone True High
             = Inr (b :: string button))
   \<and> (\<exists>msg. init example_platform 4 (Some ''press'') (Some ''release'') (PyInt (- 1)) (PyInt 1)
               True High = (Inl (ValueError msg) :: error + string button))
   \<and> (\<exists>msg. init example_platform 4 (Some ''press'') (Some ''release'') (PyInt 50) (PyInt 7)
               True High = (Inl (ValueError msg) :: error + string button))
   \<and> (\<exists>msg. init example_platform 4 (Some ''press'') (Some ''release'') (PyStr ''50'') (PyInt 1)
               True High = (Inl (ValueError msg) :: error + string button))"
proof -
  note t = init_validation [of example_platform 4 "Some ''press''" "Some ''release''" _ _ True High]
  have 1: "\<exists>b. run example_platform scenario_button [Irq 70 Low, Deinit, Irq 130 High] = Inr b"
    using t [of "PyInt 50" "PyInt 1" scenario_button "[Irq 70 Low, Deinit, Irq 130 High]"]
      scenario_init by blast
  have 2: "\<exists>b. init example_platform 4 (Some ''press'') (Some ''release'') (PyInt 0) PyNone True High
             = Inr (b :: string button)"
    using t [of "PyInt 0" PyNone] by blast
  have 3: "\<exists>msg. init example_platform 4 (Some ''press'') (Some ''release'') (PyInt (- 1)) (PyInt 1)
               True High = (Inl (ValueError msg) :: error + string button)"
    using t [of "PyInt 0" "PyInt 1"] by blast
  have 4: "\<exists>msg. init example_platform 4 (Some ''press'') (Some ''release'') (PyInt 50) (PyInt 7)
               True High = (Inl (ValueError msg) :: error + string button)"
    using t [of "PyInt 50" "PyInt 7"] by (simp add: py_eq_def example_platform_def)
  have 5: "\<exists>msg. init example_platform 4 (Some ''press'') (Some ''release'') (PyStr ''50'') (PyInt 1)
               True High = (Inl (ValueError msg) :: error + string button)"
    using t [of "PyStr ''50''" "PyInt 1"] by simp
  from 1 2 3 4 5 scenario_init show ?thesis by simp
qed

subsection \<open>The two queries\<close>

text \<open>
  C7. From a constructed button, every sequence of handler invocations and \<^verbatim>\<open>deinit()\<close>
  calls runs to a button on which \<^verbatim>\<open>is_pressed()\<close> is the negation of \<^verbatim>\<open>is_released()\<close>.
\<close>

theorem queries_complementary:
  assumes "init pl p pc rc dms pull al l0 = Inr b0"
  shows "\<exists>b. run pl b0 ops = Inr b \<and> is_pressed b = (\<not> is_released b)"
  using run_wf [OF init_wf [OF assms], of pl ops] wf_complement by blast

theorem queries_complementary_witness:
  "init example_platform 4 (Some ''press'') (Some ''release'') (PyInt 50) (PyInt 1) True High
     = Inr scenario_button
   \<and> run example_platform scenario_button [Irq 70 Low, Irq 80 High, Deinit, Irq 130 High]
       = Inr (deinit (scenario_button\<lparr> last_time := 70, state := PyInt 0 \<rparr>)
               \<lparr> last_time := 130, state := PyInt 1 \<rparr>)
   \<and> (\<exists>b. run example_platform scenario_button [Irq 70 Low, Irq 80 High, Deinit, Irq 130 High]
             = Inr b \<and> is_pressed b = (\<not> is_released b))"
proof -
  have r: "run example_platform scenario_button [Irq 70 Low, Irq 80 High, Deinit, Irq 130 High]
       = Inr (deinit (scenario_button\<lparr> last_time := 70, state := PyInt 0 \<rparr>)
               \<lparr> last_time := 130, state := PyInt 1 \<rparr>)"
    by (simp add: eval_defs)
  from queries_complementary [OF scenario_init,
      of "[Irq 70 Low, Irq 80 High, Deinit, Irq 130 High]"] r scenario_init
  show ?thesis by (simp del: run.simps)
qed

subsection \<open>Teardown\<close>

text \<open>
  C8. Any number of \<^verbatim>\<open>deinit()\<close> calls in a row runs without error; a second call changes
  nothing more than the first; the handler registration is cleared while the pin's number and
  pull mode, the logical state, \<open>last_time\<close> and the answers of the two queries stay as they
  were before the first call.
\<close>

theorem deinit_idempotent:
  "run pl b (replicate n Deinit) = Inr ((deinit ^^ n) b)
   \<and> deinit (deinit b) = deinit b
   \<and> irq_handler_set (pin (deinit b)) = False
   \<and> pin_id (pin ((deinit ^^ n) b)) = pin_id (pin b)
   \<and> pin_pull (pin ((deinit ^^ n) b)) = pin_pull (pin b)
   \<and> state ((deinit ^^ n) b) = state b
   \<and> last_time ((deinit ^^ n) b) = last_time b
   \<and> is_pressed ((deinit ^^ n) b) = is_pressed b
   \<and> is_released ((deinit ^^ n) b) = is_released b"
  using deinit_funpow [of n b] run_deinit [of pl b n]
  by (simp add: deinit_def is_pressed_def is_released_def)

theorem deinit_idempotent_witness:
  "run example_platform scenario_button [Deinit, Deinit]
     = Inr (scenario_button\<lparr> pin := \<lparr> pin_id = 4, pin_pull = PyInt 1, irq_handler_set = False \<rparr> \<rparr>)
   \<and> state ((deinit ^^ 2) scenario_button) = PyInt 1
   \<and> last_time ((deinit ^^ 2) scenario_button) = 0
   \<and> is_released ((deinit ^^ 2) scenario_button)
   \<and> \<not> is_pressed ((deinit ^^ 2) scenario_button)"
  using deinit_idempotent [of example_platform scenario_button 2]
  by (simp add: eval_defs numeral_2_eq_2)

subsection \<open>Order of transitions and callbacks\<close>

text \<open>
  C9. The values that \<open>last_time\<close> takes at the accepted transitions are invocation times,
  in the order of the invocations: strictly increasing when the invocation times are, and
  non-decreasing when those are. The callbacks called along the sequence are, in the order
  of the accepted transitions, the callback matching each new state where one is set.
\<close>

theorem transitions_ordered:
  "(sorted_wrt (<) (map fst es) \<longrightarrow> sorted_wrt (<) (map fst (transitions pl b es)))
   \<and> (sorted (map fst es) \<longrightarrow> sorted (map fst (transitions pl b es)))
   \<and> set (map fst (transitions pl b es)) \<subseteq> set (map fst es)
   \<and> callbacks pl b es
       = concat (map (\<lambda>(t, s). call_if_set (matching_callback b s)) (transitions pl b es))"
proof -
  have "set (map fst (transitions pl b es)) \<subseteq> set (map fst es)"
    using transitions_times [of "\<lambda>x y. True" es pl b] by simp
  then show ?thesis
    using transitions_times [of "(<)" es pl b] transitions_times [of "(\<le>)" es pl b]
      callbacks_transitions [of pl b es]
    by blast
qed

theorem transitions_ordered_witness:
  "sorted_wrt (<) (map fst [(50 :: int, Low), (60, High), (110, High), (120, Low), (170, Low)])
   \<and> transitions example_platform scenario_button
        [(50, Low), (60, High), (110, High), (120, Low), (170, Low)]
       = [(50, PyInt 0), (110, PyInt 1), (170, PyInt 0)]
   \<and> sorted_wrt (<) (map fst (transitions example_platform scenario_button
        [(50, Low), (60, High), (110, High), (120, Low), (170, Low)]))
   \<and> callbacks example_platform scenario_button
        [(50, Low), (60, High), (110, High), (120, Low), (170, Low)]
       = [''press'', ''release'', ''press'']"
proof -
  let ?es = "[(50 :: int, Low), (60, High), (110, High), (120, Low), (170, Low)]"
  have s: "sorted_wrt (<) (map fst ?es)" by simp
  have tr: "transitions example_platform scenario_button ?es
       = [(50, PyInt 0), (110, PyInt 1), (170, PyInt 0)]"
    by (simp add: eval_defs)
  have m: "matching_callback scenario_button (PyInt 0) = Some ''press''"
    "matching_callback scenario_button (PyInt 1) = Some ''release''"
    by (simp_all add: eval_defs)
  from transitions_ordered [of ?es example_platform scenario_button] s tr m
  show ?thesis by (simp del: transitions.simps callbacks.simps)
qed

subsection \<open>The first debounce window\<close>

text \<open>
  C10. A constructed button has \<open>last_time = 0\<close>, so an invocation at a time \<open>now\<close> with
  \<open>ticks_diff now 0\<close> below the debounce interval returns the button as it was and calls
  nothing, whatever level the pin reads, a genuine first transition included.
\<close>

theorem first_window_discarded:
  assumes "init pl p pc rc dms pull al l0 = Inr b"
      and "py_int dms = Some d"
      and "ticks_diff pl now 0 < d"
  shows "last_time b = 0 \<and> irq_handler pl b now lvl = Inr (b, [])"
proof -
  from assms(1) have b: "debounce_ms b = dms" "last_time b = 0"
    by (auto simp: init_def Let_def split: if_splits)
  then show ?thesis using assms(2,3) by (simp add: irq_handler_eq [of b d])
qed

theorem first_window_discarded_witness:
  "init example_platform 4 (Some ''press'') (Some ''release'') (PyInt 50) (PyInt 1) True High
     = Inr scenario_button
   \<and> py_int (PyInt 50) = Some 50
   \<and> ticks_diff example_platform 20 0 < 50
   \<and> ticks_diff example_platform 600000000 0 < 50
   \<and> last_time scenario_button = 0
   \<and> is_released scenario_button
   \<and> irq_handler example_platform scenario_button 20 Low = Inr (scenario_button, [])
   \<and> irq_handler example_platform scenario_button 600000000 Low = Inr (scenario_button, [])"
proof -
  have h: "py_int (PyInt 50) = Some 50" "ticks_diff example_platform 20 0 < 50"
    "ticks_diff example_platform 600000000 0 < 50"
    by (simp_all add: ticks_diff_def example_platform_def)
  have r: "is_released scenario_button" by (simp add: eval_defs)
  from first_window_discarded [OF scenario_init h(1,2), of Low]
    first_window_discarded [OF scenario_init h(1,3), of Low] h r scenario_init
  show ?thesis by simp
qed

end
